theory Spec2Isabelle
  imports
    Main
    "HOL-Library.AList"
    "HOL-Library.Sublist"
    "HOL-Library.Char_ord"
    "HOL-Library.List_Lexorder"
    "HOL-Library.Multiset"
begin

section \<open>KeeperBot: the AddressBook of \<^verbatim>\<open>keeperbot/AddressBook/addressbook.py\<close>\<close>

text \<open>
  \<^verbatim>\<open>AddressBook\<close> is a \<^verbatim>\<open>UserDict\<close>: its state is the dictionary \<^verbatim>\<open>self.data\<close>
  from contact names to \<^verbatim>\<open>Record\<close> objects. A Python dictionary iterates in insertion
  order, and several operations (the scans, \<^verbatim>\<open>sort_records\<close>) depend on that order, so
  the dictionary is an association list: \<open>AList.update\<close> overwrites a present key in
  place and appends an absent one, as \<^verbatim>\<open>d[k] = v\<close> does; \<open>AList.delete\<close> is
  \<^verbatim>\<open>del d[k]\<close>; \<open>map_of\<close> is \<^verbatim>\<open>d.get(k)\<close>. The keys of a dictionary are distinct.

  The classes \<^verbatim>\<open>Record\<close> and \<^verbatim>\<open>Note\<close> live in \<^verbatim>\<open>record.py\<close>, which is not part of the
  material. Their data is the record types below (the attributes the address book
  reads); their methods are the fields of \<open>collab\<close>, parameters of the model.
\<close>

subsection \<open>Python values\<close>

datatype error = ValueError string | KeyError string

text \<open>\<^verbatim>\<open>datetime.date\<close>: a year in 1..9999, a month, a day of that month.\<close>

datatype date = Date (year: int) (month: int) (day: int)

definition is_leap :: "int \<Rightarrow> bool" where
  "is_leap y = (y mod 4 = 0 \<and> (y mod 100 \<noteq> 0 \<or> y mod 400 = 0))"

definition days_in_month :: "int \<Rightarrow> int \<Rightarrow> int" where
  "days_in_month y m =
     (if m = 2 then (if is_leap y then 29 else 28)
      else if m = 4 \<or> m = 6 \<or> m = 9 \<or> m = 11 then 30 else 31)"

definition days_before_year :: "int \<Rightarrow> int" where
  "days_before_year y = (y - 1) * 365 + (y - 1) div 4 - (y - 1) div 100 + (y - 1) div 400"

definition days_before_month :: "int \<Rightarrow> int \<Rightarrow> int" where
  "days_before_month y m =
     (\<Sum>k \<leftarrow> [1 ..< nat m]. days_in_month y (int k))"

text \<open>\<^verbatim>\<open>date.toordinal()\<close>; the difference of two dates has \<^verbatim>\<open>.days\<close> the difference
  of their ordinals.\<close>

definition toordinal :: "date \<Rightarrow> int" where
  "toordinal d = days_before_year (year d) + days_before_month (year d) (month d) + day d"

text \<open>\<^verbatim>\<open>a < b\<close> on dates compares (year, month, day).\<close>

definition date_less :: "date \<Rightarrow> date \<Rightarrow> bool" where
  "date_less a b =
     (year a < year b \<or> (year a = year b \<and>
       (month a < month b \<or> (month a = month b \<and> day a < day b))))"

text \<open>\<^verbatim>\<open>d.replace(year=y)\<close> builds \<^verbatim>\<open>date(y, d.month, d.day)\<close> and raises
  \<^verbatim>\<open>ValueError\<close> when that is not a date of the calendar.\<close>

definition replace_year :: "date \<Rightarrow> int \<Rightarrow> error + date" where
  "replace_year d y =
     (if y < 1 \<or> 9999 < y then Inl (ValueError ''year is out of range'')
      else if days_in_month y (month d) < day d
        then Inl (ValueError ''day is out of range for month'')
      else Inr (Date y (month d) (day d)))"

text \<open>A Python string is the list of the bytes of its UTF-8 text. \<^verbatim>\<open>needle in haystack\<close>
  on strings: the needle occurs as a contiguous part (in UTF-8 a match of whole characters
  starts and ends at character boundaries, so bytes and code points agree here).\<close>

fun contains :: "string \<Rightarrow> string \<Rightarrow> bool" where
  "contains needle [] = (needle = [])"
| "contains needle (c # cs) = (prefix needle (c # cs) \<or> contains needle cs)"

subsection \<open>Records and notes\<close>

record Note =
  title :: string
  content :: string
  tags :: "string list"

text \<open>\<open>name\<close> is \<^verbatim>\<open>record.name.value\<close>, a phone is its \<^verbatim>\<open>number.value\<close>, \<open>birthday\<close> is
  \<^verbatim>\<open>record.birthday.value\<close> when \<^verbatim>\<open>record.birthday\<close> is set, \<open>record_notes\<close> is
  \<^verbatim>\<open>record.notes\<close>, \<open>owner\<close> is \<open>None\<close> when the object has no attribute \<^verbatim>\<open>owner\<close>.\<close>

record Record =
  name :: string
  phones :: "string list"
  birthday :: "date option"
  record_notes :: "Note list"
  owner :: "bool option"

type_synonym directory = "(string \<times> Record) list"

text \<open>The methods of \<^verbatim>\<open>Record\<close>, \<^verbatim>\<open>Note\<close> and the phone field that the address book calls.
  \<open>'a\<close> is the type of attribute values reached by reflection, \<open>'r\<close> what
  \<^verbatim>\<open>Record.edit_name\<close> returns. \<open>edit_name\<close> gives the outcome of the call and the record as
  the call leaves it. \<open>str_lower\<close> is \<^verbatim>\<open>str.lower()\<close>, the case mapping of the interpreter
  over all of Unicode: its table is no part of the repository, so it is a parameter too.\<close>

record ('a, 'r) collab =
  phone_eq :: "string \<Rightarrow> string \<Rightarrow> bool"
  phone_str :: "string \<Rightarrow> string"
  note_eq :: "string \<Rightarrow> Note \<Rightarrow> bool"
  note_str :: "Note \<Rightarrow> string"
  getattr :: "Record \<Rightarrow> string \<Rightarrow> 'a option"
  dict_values :: "Record \<Rightarrow> 'a list"
  attr_eq :: "'a \<Rightarrow> string \<Rightarrow> bool"
  attr_str :: "'a \<Rightarrow> string"
  edit_name :: "Record \<Rightarrow> string \<Rightarrow> (error + 'r) \<times> Record"
  str_lower :: "string \<Rightarrow> string"

text \<open>What a caller may pass to \<^verbatim>\<open>add_record\<close>: something that is no \<^verbatim>\<open>Record\<close>, a
  \<^verbatim>\<open>Record\<close> whose \<^verbatim>\<open>name.value\<close> is \<^verbatim>\<open>None\<close>, or a \<^verbatim>\<open>Record\<close> with a string for a name.\<close>

datatype candidate = NotARecord | UnnamedRecord | NamedRecord Record

subsection \<open>The operations\<close>

fun get_owner :: "directory \<Rightarrow> Record option" where
  "get_owner [] = None"
| "get_owner ((k, record) # rest) =
     (if (case owner record of None \<Rightarrow> False | Some b \<Rightarrow> b) = True then Some record
      else get_owner rest)"

fun add_record :: "directory \<Rightarrow> candidate \<Rightarrow> (error + unit) \<times> directory" where
  "add_record book NotARecord = (Inl (ValueError ''Invalid record.''), book)"
| "add_record book UnnamedRecord = (Inl (ValueError ''Invalid record.''), book)"
| "add_record book (NamedRecord record) =
     (if name record = [] then (Inl (ValueError ''Invalid record.''), book)
      else (Inr (), AList.update (name record) record book))"

fun find_phone :: "directory \<Rightarrow> string \<Rightarrow> Record option" where
  "find_phone [] phone = None"
| "find_phone ((k, record) # rest) phone =
     (if list_ex (\<lambda>number. phone = number) (phones record) then Some record
      else find_phone rest phone)"

definition find_contact :: "directory \<Rightarrow> string \<Rightarrow> Record option" where
  "find_contact book nm = map_of book nm"

definition delete :: "directory \<Rightarrow> string \<Rightarrow> (error + string) \<times> directory" where
  "delete book nm =
     (if nm \<in> fst ` set book then (Inr ''Contact deleted.'', AList.delete nm book)
      else (Inl (ValueError ''Record not found or invalid name.''), book))"

text \<open>Lines 91 to 96: the days from \<open>today\<close> to the next occurrence of the birthday.\<close>

definition delta_days :: "date \<Rightarrow> date \<Rightarrow> error + int" where
  "delta_days today b =
     (case replace_year b (year today) of
        Inl e \<Rightarrow> Inl e
      | Inr birthday_this_year \<Rightarrow>
          (case (if date_less birthday_this_year today
                 then replace_year birthday_this_year (year today + 1)
                 else Inr birthday_this_year) of
             Inl e \<Rightarrow> Inl e
           | Inr birthday_this_year' \<Rightarrow> Inr (toordinal birthday_this_year' - toordinal today)))"

fun upcoming_loop :: "date \<Rightarrow> int \<Rightarrow> Record list \<Rightarrow> Record list \<Rightarrow> error + Record list" where
  "upcoming_loop today n_days [] upcoming_birthdays = Inr upcoming_birthdays"
| "upcoming_loop today n_days (record # rest) upcoming_birthdays =
     (case birthday record of
        None \<Rightarrow> upcoming_loop today n_days rest upcoming_birthdays
      | Some b \<Rightarrow>
          (case delta_days today b of
             Inl e \<Rightarrow> Inl e
           | Inr delta \<Rightarrow>
               upcoming_loop today n_days rest
                 (if 0 \<le> delta \<and> delta \<le> n_days then upcoming_birthdays @ [record]
                  else upcoming_birthdays)))"

definition get_upcoming_birthdays :: "date \<Rightarrow> directory \<Rightarrow> int \<Rightarrow> error + Record list" where
  "get_upcoming_birthdays today book n_days = upcoming_loop today n_days (map snd book) []"

text \<open>Line 123, \<^verbatim>\<open>any([value.lower() in tag.__str__().lower() for tag in note.tags])\<close>,
  and the loop with \<^verbatim>\<open>break\<close> around it.\<close>

definition tag_hit :: "('a, 'r) collab \<Rightarrow> string \<Rightarrow> Note \<Rightarrow> bool" where
  "tag_hit C v note =
     list_ex (\<lambda>tag. contains (str_lower C v) (str_lower C tag)) (tags note)"

fun tag_loop :: "('a, 'r) collab \<Rightarrow> string \<Rightarrow> Note list \<Rightarrow> bool" where
  "tag_loop C v [] = False"
| "tag_loop C v (note # rest) = (if tag_hit C v note then True else tag_loop C v rest)"

text \<open>\<^verbatim>\<open>result.add(item)\<close> on a set: \<open>List.insert\<close>. The order of \<^verbatim>\<open>list(result)\<close> is
  not fixed by Python; only the elements of the list mean something.\<close>

definition field_step ::
  "('a, 'r) collab \<Rightarrow> string \<Rightarrow> string \<Rightarrow> Record list \<Rightarrow> Record \<Rightarrow> Record list" where
  "field_step C field_name v result item =
     (if field_name = ''phone'' \<or> field_name = ''phones'' then
        (if list_ex (phone_eq C v) (phones item)
            \<or> list_ex (\<lambda>phone. contains v (phone_str C phone)) (phones item)
         then List.insert item result else result)
      else if field_name = ''note'' then
        (if list_ex (note_eq C v) (record_notes item)
            \<or> list_ex (\<lambda>note. contains (str_lower C v) (str_lower C (note_str C note)))
                 (record_notes item)
         then List.insert item result else result)
      else if field_name = ''tag'' then
        (if record_notes item \<noteq> [] \<and> tag_loop C v (record_notes item)
         then List.insert item result else result)
      else
        (case getattr C item field_name of
           Some field_value \<Rightarrow>
             (if attr_eq C field_value v
                 \<or> contains (str_lower C v) (str_lower C (attr_str C field_value))
              then List.insert item result else result)
         | None \<Rightarrow>
             (if field_name = ''all'' then
                foldl (\<lambda>res dict_value.
                         if attr_eq C dict_value v
                            \<or> contains (str_lower C v) (str_lower C (attr_str C dict_value))
                         then List.insert item res else res)
                  result (dict_values C item)
              else result)))"

definition find_contacts_by_field ::
  "('a, 'r) collab \<Rightarrow> directory \<Rightarrow> string \<Rightarrow> string \<Rightarrow> Record list" where
  "find_contacts_by_field C book field_name v =
     foldl (field_step C field_name v) [] (map snd book)"

definition sort_records :: "directory \<Rightarrow> directory" where
  "sort_records book =
     (let sorted_records = sort_key name (map snd book)
      in foldl (\<lambda>data record. AList.update (name record) record data) [] sorted_records)"

fun find_note_by_title :: "directory \<Rightarrow> string \<Rightarrow> Note option" where
  "find_note_by_title [] note_title = None"
| "find_note_by_title ((k, record) # rest) note_title =
     (case find (\<lambda>note. title note = note_title) (record_notes record) of
        Some note \<Rightarrow> Some note
      | None \<Rightarrow> find_note_by_title rest note_title)"

text \<open>\<^verbatim>\<open>record.notes.remove(note)\<close> removes the first element equal to \<open>note\<close>.\<close>

fun delete_note_by_title :: "directory \<Rightarrow> string \<Rightarrow> directory" where
  "delete_note_by_title [] note_title = []"
| "delete_note_by_title ((k, record) # rest) note_title =
     (case find (\<lambda>note. title note = note_title) (record_notes record) of
        Some note \<Rightarrow> (k, record\<lparr>record_notes := remove1 note (record_notes record)\<rparr>) # rest
      | None \<Rightarrow> (k, record) # delete_note_by_title rest note_title)"

definition find_notes_by_tag :: "directory \<Rightarrow> string \<Rightarrow> Note list" where
  "find_notes_by_tag book tag =
     concat (map (\<lambda>(k, record). filter (\<lambda>note. tag \<in> set (tags note)) (record_notes record)) book)"

text \<open>\<^verbatim>\<open>self.data.pop(name)\<close> raises \<^verbatim>\<open>KeyError\<close> before anything is assigned; after it
  the record sits under \<open>new_name\<close>, and \<^verbatim>\<open>edit_name\<close> works on that stored object.\<close>

definition update_name ::
  "('a, 'r) collab \<Rightarrow> directory \<Rightarrow> string \<Rightarrow> string \<Rightarrow> (error + 'r) \<times> directory" where
  "update_name C book nm new_name =
     (case map_of book nm of
        None \<Rightarrow> (Inl (KeyError nm), book)
      | Some record \<Rightarrow>
          (let data = AList.update new_name record (AList.delete nm book);
               (outcome, record') = edit_name C record new_name
           in (outcome, AList.update new_name record' data)))"

subsection \<open>The address book as a machine\<close>

datatype op =
    GetOwner
  | AddRecord candidate
  | FindPhone string
  | FindContact string
  | Delete string
  | GetUpcomingBirthdays int
  | FindContactsByField string string
  | SortRecords
  | FindNoteByTitle string
  | DeleteNoteByTitle string
  | FindNotesByTag string
  | UpdateName string string

datatype 'r result =
    NoneVal
  | StrVal string
  | RecordVal "Record option"
  | RecordsVal "Record list"
  | NoteVal "Note option"
  | NotesVal "Note list"
  | EditVal 'r

text \<open>One call: what it returns or raises, and \<^verbatim>\<open>self.data\<close> after it. \<open>today\<close> is
  \<^verbatim>\<open>datetime.today().date()\<close>.\<close>

fun exec ::
  "('a, 'r) collab \<Rightarrow> date \<Rightarrow> directory \<Rightarrow> op \<Rightarrow> (error + 'r result) \<times> directory" where
  "exec C today book GetOwner = (Inr (RecordVal (get_owner book)), book)"
| "exec C today book (AddRecord c) =
     (case add_record book c of (Inl e, book') \<Rightarrow> (Inl e, book')
                              | (Inr u, book') \<Rightarrow> (Inr NoneVal, book'))"
| "exec C today book (FindPhone phone) = (Inr (RecordVal (find_phone book phone)), book)"
| "exec C today book (FindContact nm) = (Inr (RecordVal (find_contact book nm)), book)"
| "exec C today book (Delete nm) =
     (case delete book nm of (Inl e, book') \<Rightarrow> (Inl e, book')
                           | (Inr s, book') \<Rightarrow> (Inr (StrVal s), book'))"
| "exec C today book (GetUpcomingBirthdays n_days) =
     (case get_upcoming_birthdays today book n_days of
        Inl e \<Rightarrow> (Inl e, book) | Inr rs \<Rightarrow> (Inr (RecordsVal rs), book))"
| "exec C today book (FindContactsByField field_name v) =
     (Inr (RecordsVal (find_contacts_by_field C book field_name v)), book)"
| "exec C today book SortRecords = (Inr NoneVal, sort_records book)"
| "exec C today book (FindNoteByTitle t) = (Inr (NoteVal (find_note_by_title book t)), book)"
| "exec C today book (DeleteNoteByTitle t) = (Inr NoneVal, delete_note_by_title book t)"
| "exec C today book (FindNotesByTag tag) = (Inr (NotesVal (find_notes_by_tag book tag)), book)"
| "exec C today book (UpdateName nm new_name) =
     (case update_name C book nm new_name of
        (Inl e, book') \<Rightarrow> (Inl e, book') | (Inr r, book') \<Rightarrow> (Inr (EditVal r), book'))"


text \<open>The invariant of the data model: every key is the name of its record.\<close>

definition keys_match :: "directory \<Rightarrow> bool" where
  "keys_match book = list_all (\<lambda>(k, record). name record = k) book"


text \<open>A rename in which \<^verbatim>\<open>Record.edit_name\<close> itself raises, after line 194 has moved
  the entry.\<close>

definition entity_failed :: "('a, 'r) collab \<Rightarrow> directory \<Rightarrow> op \<Rightarrow> bool" where
  "entity_failed C book call =
     (case call of
        UpdateName nm new_name \<Rightarrow>
          (case map_of book nm of
             None \<Rightarrow> False
           | Some record \<Rightarrow> isl (fst (edit_name C record new_name)))
      | _ \<Rightarrow> False)"

inductive reachable_ok :: "('a, 'r) collab \<Rightarrow> directory \<Rightarrow> bool" for C where
  initial: "reachable_ok C []"
| call: "reachable_ok C book \<Longrightarrow> \<not> entity_failed C book call \<Longrightarrow>
         snd (exec C today book call) = book' \<Longrightarrow> reachable_ok C book'"

text \<open>The contract of \<^verbatim>\<open>Record.edit_name\<close>: when it returns, the record carries the new
  name.\<close>

definition sets_name :: "('a, 'r) collab \<Rightarrow> bool" where
  "sets_name C =
     (\<forall>record new_name v record'.
        edit_name C record new_name = (Inr v, record') \<longrightarrow> name record' = new_name)"

text \<open>The window test of line 98 on one record, with the projection of lines 91 to 96.\<close>

definition in_window :: "date \<Rightarrow> int \<Rightarrow> Record \<Rightarrow> bool" where
  "in_window today n_days record =
     (case birthday record of
        None \<Rightarrow> False
      | Some b \<Rightarrow>
          (case delta_days today b of
             Inl e \<Rightarrow> False
           | Inr delta \<Rightarrow> 0 \<le> delta \<and> delta \<le> n_days))"


subsection \<open>Case folding\<close>


definition ascii_lower_char :: "char \<Rightarrow> char" where
  "ascii_lower_char c =
     (if CHR ''A'' \<le> c \<and> c \<le> CHR ''Z'' then char_of (of_char c + (32::nat)) else c)"

definition ascii_lower :: "string \<Rightarrow> string" where
  "ascii_lower s = map ascii_lower_char s"





subsection \<open>An instance of the collaborators\<close>

text \<open>Modelled from the spec: the methods of \<^verbatim>\<open>Record\<close> and \<^verbatim>\<open>Note\<close>, whose file
  \<^verbatim>\<open>record.py\<close> is absent. This is the plainest instance of the collaborator contracts:
  a phone and a note render as their stored text, neither equals a bare string, the
  name is the one attribute reached by reflection, and \<^verbatim>\<open>edit_name\<close> stores the new name
  and returns a confirmation. Its \<open>str_lower\<close> is \<^verbatim>\<open>str.lower()\<close> as far as ASCII text goes,
  and the examples below use it on ASCII text only.\<close>

definition plain_collab :: "(string, string) collab" where
  "plain_collab =
     \<lparr>phone_eq = (\<lambda>v phone. False),
      phone_str = (\<lambda>phone. phone),
      note_eq = (\<lambda>v note. False),
      note_str = (\<lambda>note. title note @ '': '' @ content note),
      getattr = (\<lambda>record field_name. if field_name = ''name'' then Some (name record) else None),
      dict_values = (\<lambda>record. [name record]),
      attr_eq = (\<lambda>field_value v. field_value = v),
      attr_str = (\<lambda>field_value. field_value),
      edit_name = (\<lambda>record new_name. (Inr ''Name updated.'', record\<lparr>name := new_name\<rparr>)),
      str_lower = ascii_lower\<rparr>"

text \<open>A record with a name, a birthday and notes, and nothing else.\<close>

abbreviation contact :: "string \<Rightarrow> date option \<Rightarrow> Note list \<Rightarrow> Record" where
  "contact n b ns \<equiv> \<lparr>name = n, phones = [], birthday = b, record_notes = ns, owner = None\<rparr>"

section \<open>Properties\<close>

subsection \<open>Strings\<close>










subsection \<open>The dictionary\<close>

lemma set_update_subset: "set (AList.update k v al) \<subseteq> insert (k, v) (set al)"
  by (induction al) auto

lemma set_delete_subset: "set (AList.delete k al) \<subseteq> set al"
  by (auto simp: AList.delete_eq)

lemma update_update_same: "AList.update k v (AList.update k w al) = AList.update k v al"
  by (induction al) auto

lemma update_fresh: "k \<notin> fst ` set al \<Longrightarrow> AList.update k v al = al @ [(k, v)]"
  by (induction al) auto

lemma delete_filter: "AList.delete nm book = filter (\<lambda>entry. fst entry \<noteq> nm) book"
  by (induction book) auto

subsection \<open>Keys and names\<close>

lemma keys_match_iff: "keys_match book \<longleftrightarrow> (\<forall>(k, r) \<in> set book. name r = k)"
  by (simp add: keys_match_def list_all_iff)

lemma keys_match_Nil: "keys_match []"
  by (simp add: keys_match_def)

lemma keys_match_Cons: "keys_match ((k, r) # book) \<longleftrightarrow> name r = k \<and> keys_match book"
  by (simp add: keys_match_def)

lemma keys_match_update: "keys_match book \<Longrightarrow> name r = k \<Longrightarrow> keys_match (AList.update k r book)"
  using set_update_subset [of k r book] by (auto simp: keys_match_iff)

lemma keys_match_delete: "keys_match book \<Longrightarrow> keys_match (AList.delete k book)"
  using set_delete_subset [of k book] by (auto simp: keys_match_iff)

lemma keys_match_names: "keys_match al \<Longrightarrow> map name (map snd al) = map fst al"
  by (induction al) (auto simp: keys_match_def)

lemma keys_match_rebuild:
  "keys_match al \<Longrightarrow> map (\<lambda>record. (name record, record)) (map snd al) = al"
  by (induction al) (auto simp: keys_match_def)

lemma keys_match_fold_update:
  "keys_match acc \<Longrightarrow>
   keys_match (foldl (\<lambda>data record. AList.update (name record) record data) acc rs)"
  by (induction rs arbitrary: acc) (simp_all add: keys_match_update)

lemma keys_match_sort_records: "keys_match (sort_records book)"
  by (simp add: sort_records_def keys_match_fold_update keys_match_Nil)

lemma keys_match_delete_note:
  "keys_match book \<Longrightarrow> keys_match (delete_note_by_title book t)"
  by (induction book t rule: delete_note_by_title.induct)
     (auto simp: keys_match_Cons split: option.splits)

lemma keys_match_add_record: "keys_match book \<Longrightarrow> keys_match (snd (add_record book c))"
  by (cases c) (auto simp: keys_match_update)

lemma keys_match_delete_op: "keys_match book \<Longrightarrow> keys_match (snd (delete book nm))"
  by (simp add: delete_def keys_match_delete)

subsection \<open>Renaming\<close>

lemma update_name_absent:
  "map_of book nm = None \<Longrightarrow> update_name C book nm new_name = (Inl (KeyError nm), book)"
  by (simp add: update_name_def)

lemma update_name_present:
  "map_of book nm = Some r \<Longrightarrow> edit_name C r new_name = (outcome, r') \<Longrightarrow>
   update_name C book nm new_name = (outcome, AList.update new_name r' (AList.delete nm book))"
  by (simp add: update_name_def update_update_same)

lemma keys_match_update_name:
  assumes "sets_name C" "keys_match book" "\<not> entity_failed C book (UpdateName nm new_name)"
  shows "keys_match (snd (update_name C book nm new_name))"
proof (cases "map_of book nm")
  case None
  then show ?thesis using assms(2) by (simp add: update_name_absent)
next
  case (Some r)
  obtain outcome r' where e: "edit_name C r new_name = (outcome, r')"
    by (cases "edit_name C r new_name")
  with assms(3) Some obtain v where "outcome = Inr v"
    by (cases outcome) (auto simp: entity_failed_def)
  with e assms(1) have "name r' = new_name"
    by (auto simp: sets_name_def)
  then show ?thesis
    using assms(2) Some e by (simp add: update_name_present keys_match_update keys_match_delete)
qed

lemma keys_match_exec:
  assumes "sets_name C" "keys_match book" "\<not> entity_failed C book call"
  shows "keys_match (snd (exec C today book call))"
proof (cases call)
  case (AddRecord c)
  then show ?thesis using keys_match_add_record [OF assms(2), of c]
    by (auto split: prod.splits sum.splits)
next
  case (Delete nm)
  then show ?thesis using keys_match_delete_op [OF assms(2), of nm]
    by (auto split: prod.splits sum.splits)
next
  case (GetUpcomingBirthdays n)
  then show ?thesis using assms(2) by (auto split: sum.splits)
next
  case SortRecords
  then show ?thesis by (simp add: keys_match_sort_records)
next
  case (DeleteNoteByTitle t)
  then show ?thesis using assms(2) by (simp add: keys_match_delete_note)
next
  case (UpdateName nm new_name)
  then show ?thesis using keys_match_update_name [OF assms(1,2), of nm new_name] assms(3)
    by (auto split: prod.splits sum.splits)
qed (use assms(2) in simp_all)

lemma keys_match_reachable_ok:
  assumes "sets_name C" "reachable_ok C book"
  shows "keys_match book"
  using assms(2)
proof (induction rule: reachable_ok.induct)
  case initial
  show ?case by (rule keys_match_Nil)
next
  case (call book c today book')
  from keys_match_exec [OF assms(1) call.IH call.hyps(2), of today] call.hyps(3)
  show ?case by simp
qed




subsection \<open>Sorting\<close>

lemma fold_update_fresh:
  "distinct (map name rs) \<Longrightarrow> name ` set rs \<inter> fst ` set acc = {} \<Longrightarrow>
   foldl (\<lambda>data record. AList.update (name record) record data) acc rs
     = acc @ map (\<lambda>record. (name record, record)) rs"
proof (induction rs arbitrary: acc)
  case Nil
  then show ?case by simp
next
  case (Cons r rs)
  have fresh: "name r \<notin> fst ` set acc" using Cons.prems(2) by auto
  have "name ` set rs \<inter> fst ` set (acc @ [(name r, r)]) = {}"
    using Cons.prems by auto
  with Cons.IH [of "acc @ [(name r, r)]"] Cons.prems(1) fresh show ?case
    by (simp add: update_fresh)
qed

lemma fold_update_sorted:
  "sorted (map name rs) \<Longrightarrow> sorted_wrt (<) (map fst acc) \<Longrightarrow>
   (\<forall>k \<in> fst ` set acc. \<forall>r \<in> set rs. k \<le> name r) \<Longrightarrow>
   sorted_wrt (<)
     (map fst (foldl (\<lambda>data record. AList.update (name record) record data) acc rs))"
proof (induction rs arbitrary: acc)
  case Nil
  then show ?case by simp
next
  case (Cons r rs)
  let ?acc = "AList.update (name r) r acc"
  have keys: "fst ` set ?acc = insert (name r) (fst ` set acc)"
    by (simp add: dom_update)
  have s: "sorted_wrt (<) (map fst ?acc)"
  proof (cases "name r \<in> fst ` set acc")
    case True
    then show ?thesis using Cons.prems(2) by (simp add: update_keys)
  next
    case False
    have "\<forall>k \<in> fst ` set acc. k < name r"
    proof
      fix k assume k: "k \<in> fst ` set acc"
      with Cons.prems(3) have "k \<le> name r" by auto
      moreover from k False have "k \<noteq> name r" by blast
      ultimately show "k < name r" by simp
    qed
    with False Cons.prems(2) show ?thesis
      by (simp add: update_keys sorted_wrt_append)
  qed
  have b: "\<forall>k \<in> fst ` set ?acc. \<forall>r' \<in> set rs. k \<le> name r'"
    using Cons.prems(1,3) by (auto simp: keys)
  from Cons.prems(1) have "sorted (map name rs)" by simp
  from Cons.IH [OF this s b] show ?case by simp
qed

lemma sort_records_keys_sorted: "sorted_wrt (<) (map fst (sort_records book))"
  by (simp add: sort_records_def fold_update_sorted)

lemma sort_records_id:
  assumes "keys_match book" "sorted_wrt (<) (map fst book)"
  shows "sort_records book = book"
proof -
  have n: "map name (map snd book) = map fst book"
    using assms(1) by (rule keys_match_names)
  from assms(2) have sd: "sorted (map fst book)" "distinct (map fst book)"
    by (simp_all add: strict_sorted_iff)
  have "sort_key name (map snd book) = map snd book"
    by (rule sort_key_id_if_sorted) (simp only: n sd)
  moreover have "foldl (\<lambda>data record. AList.update (name record) record data) [] (map snd book)
      = [] @ map (\<lambda>record. (name record, record)) (map snd book)"
    by (rule fold_update_fresh) (simp_all only: n sd, simp)
  ultimately show ?thesis
    using assms(1) by (simp add: sort_records_def keys_match_rebuild del: map_map)
qed

lemma sort_records_idem: "sort_records (sort_records book) = sort_records book"
  by (rule sort_records_id) (rule keys_match_sort_records sort_records_keys_sorted)+

lemma sort_records_mset:
  assumes "keys_match book" "distinct (map fst book)"
  shows "mset (sort_records book) = mset book"
proof -
  let ?s = "sort_key name (map snd book)"
  have "mset (map name ?s) = mset (map name (map snd book))"
    by (simp del: map_map)
  also have "\<dots> = mset (map fst book)"
    using assms(1) by (simp only: keys_match_names)
  finally have "distinct (map name ?s)"
    using assms(2) by (metis mset_eq_imp_distinct_iff)
  then have "sort_records book = [] @ map (\<lambda>record. (name record, record)) ?s"
    unfolding sort_records_def Let_def by (intro fold_update_fresh) simp_all
  then have "mset (sort_records book)
      = mset (map (\<lambda>record. (name record, record)) (map snd book))"
    by (simp del: map_map)
  then show ?thesis using assms(1) by (simp only: keys_match_rebuild)
qed

subsection \<open>Searching by tag\<close>







subsection \<open>Deleting a note\<close>

lemma find_None_filter: "find P xs = None \<longleftrightarrow> filter P xs = []"
  by (induction xs) auto

lemma filter_Nil_find: "filter P xs = [] \<Longrightarrow> find P xs = None"
  by (simp add: find_None_filter)

lemma find_Some_filter_pos: "find P xs = Some x \<Longrightarrow> 0 < length (filter P xs)"
  by (induction xs) (auto split: if_splits)

lemma filter_remove1_found:
  "find P xs = Some x \<Longrightarrow> length (filter P xs) \<le> 1 \<Longrightarrow> filter P (remove1 x xs) = []"
proof (induction xs)
  case Nil
  then show ?case by simp
next
  case (Cons y ys)
  show ?case
  proof (cases "P y")
    case True
    with Cons.prems show ?thesis by simp
  next
    case False
    with Cons.prems have "find P ys = Some x" "length (filter P ys) \<le> 1" by simp_all
    from Cons.IH [OF this] have "filter P (remove1 x ys) = []" .
    moreover from \<open>find P ys = Some x\<close> have "P x" by (auto simp: find_Some_iff)
    ultimately show ?thesis using False by auto
  qed
qed

lemma delete_note_no_match:
  "filter (\<lambda>n. title n = t) (concat (map (\<lambda>(k, r). record_notes r) book)) = [] \<Longrightarrow>
   delete_note_by_title book t = book"
  by (induction book t rule: delete_note_by_title.induct) (auto simp: filter_Nil_find)

lemma find_note_None:
  "find_note_by_title book t = None \<longleftrightarrow>
   filter (\<lambda>n. title n = t) (concat (map (\<lambda>(k, r). record_notes r) book)) = []"
  by (induction book t rule: find_note_by_title.induct)
     (auto simp: find_None_filter filter_Nil_find split: option.splits)

lemma delete_note_twice:
  "length (filter (\<lambda>n. title n = t) (concat (map (\<lambda>(k, r). record_notes r) book))) \<le> 1 \<Longrightarrow>
   delete_note_by_title (delete_note_by_title book t) t = delete_note_by_title book t"
proof (induction book t rule: delete_note_by_title.induct)
  case (1 t)
  then show ?case by simp
next
  case (2 k r rest t)
  let ?P = "\<lambda>n. title n = t"
  let ?rest = "concat (map (\<lambda>(k, r). record_notes r) rest)"
  show ?case
  proof (cases "find ?P (record_notes r)")
    case None
    then have "filter ?P (record_notes r) = []" by (simp add: find_None_filter)
    with "2.prems" have "length (filter ?P ?rest) \<le> 1" by simp
    with "2.IH" None show ?thesis by simp
  next
    case (Some n0)
    have pos: "0 < length (filter ?P (record_notes r))"
      using Some by (rule find_Some_filter_pos)
    have total: "length (filter ?P (record_notes r)) + length (filter ?P ?rest) \<le> 1"
      using "2.prems" by simp
    from pos total have here: "length (filter ?P (record_notes r)) \<le> 1"
      and "length (filter ?P ?rest) = 0"
      by arith+
    then have rest: "filter ?P ?rest = []" by simp
    have "find ?P (remove1 n0 (record_notes r)) = None"
      using filter_remove1_found [OF Some here] by (simp add: find_None_filter)
    moreover have "delete_note_by_title rest t = rest"
      using rest by (rule delete_note_no_match)
    ultimately show ?thesis using Some by simp
  qed
qed

subsection \<open>Upcoming birthdays\<close>

text \<open>When the call returns, it returns the records of the window in iteration order;
  and it returns exactly when every stored birthday can be projected.\<close>

lemma upcoming_loop_filter:
  "upcoming_loop today n rs acc = Inr out \<Longrightarrow> out = acc @ filter (in_window today n) rs"
proof (induction rs arbitrary: acc)
  case Nil
  then show ?case by simp
next
  case (Cons r rs)
  show ?case
  proof (cases "birthday r")
    case None
    with Cons.prems have "upcoming_loop today n rs acc = Inr out" by simp
    from Cons.IH [OF this] None show ?thesis by (simp add: in_window_def)
  next
    case (Some b)
    show ?thesis
    proof (cases "delta_days today b")
      case (Inl e)
      with Some Cons.prems show ?thesis by simp
    next
      case (Inr delta)
      with Some Cons.prems
      have "upcoming_loop today n rs
              (if 0 \<le> delta \<and> delta \<le> n then acc @ [r] else acc) = Inr out"
        by simp
      from Cons.IH [OF this] Some Inr show ?thesis by (simp add: in_window_def)
    qed
  qed
qed

lemma upcoming_loop_raises:
  "birthday r = Some b \<Longrightarrow> delta_days today b = Inl e \<Longrightarrow> r \<in> set rs \<Longrightarrow>
   \<exists>e'. upcoming_loop today n rs acc = Inl e'"
  by (induction rs arbitrary: acc) (auto split: option.splits sum.splits)

lemma upcoming_loop_total:
  "\<forall>r \<in> set rs. \<forall>b. birthday r = Some b \<longrightarrow> \<not> isl (delta_days today b) \<Longrightarrow>
   upcoming_loop today n rs acc = Inr (acc @ filter (in_window today n) rs)"
proof (induction rs arbitrary: acc)
  case Nil
  then show ?case by simp
next
  case (Cons r rs)
  then show ?case
    by (cases "birthday r") (auto simp: in_window_def split: sum.splits)
qed

lemma get_upcoming_birthdays_window:
  "get_upcoming_birthdays today book n = Inr out \<Longrightarrow>
   out = filter (in_window today n) (map snd book)"
  unfolding get_upcoming_birthdays_def by (drule upcoming_loop_filter) simp

section \<open>The claims\<close>



text \<open>C2, at the input where the code departs from it. The claim: a record with a birthday
  is in the result exactly when its next birthday is between 0 and \<open>n_days\<close> days away.
  On 1 March 2023, Ann's birthday (1 March) is 0 days away, so the claim puts her in the
  result for \<open>n_days = 0\<close>; but Bob was born on 29 February, \<^verbatim>\<open>birthday.replace(year=2023)\<close>
  on line 91 raises \<^verbatim>\<open>ValueError\<close>, and the call returns no list at all.\<close>

theorem upcoming_birthdays_leap_day_loses_window:
  "delta_days (Date 2023 3 1) (Date 1990 3 1) = Inr 0
   \<and> get_upcoming_birthdays (Date 2023 3 1)
        [(''Ann'', contact ''Ann'' (Some (Date 1990 3 1)) []),
         (''Bob'', contact ''Bob'' (Some (Date 2000 2 29)) [])] 0
       = Inl (ValueError ''day is out of range for month'')"
  by (simp add: get_upcoming_birthdays_def delta_days_def replace_year_def days_in_month_def
        is_leap_def date_less_def toordinal_def)

text \<open>C3. Renaming a name that is not a key fails with \<^verbatim>\<open>KeyError\<close> (the spec's NotFound),
  raised by \<^verbatim>\<open>self.data.pop(name)\<close> before anything is stored: the mapping is the same
  afterwards, and so is what it holds under the new name.\<close>

theorem update_name_not_found:
  "nm \<notin> fst ` set book \<Longrightarrow>
   exec C today book (UpdateName nm new_name) = (Inl (KeyError nm), book)
   \<and> update_name C book nm new_name = (Inl (KeyError nm), book)
   \<and> find_contact (snd (update_name C book nm new_name)) new_name = find_contact book new_name"
  by (simp add: update_name_absent map_of_eq_None_iff)

theorem update_name_not_found_witness:
  "''Bob'' \<notin> fst ` set [(''Alice'', contact ''Alice'' None [])]
   \<and> update_name plain_collab [(''Alice'', contact ''Alice'' None [])] ''Bob'' ''Carol''
       = (Inl (KeyError ''Bob''), [(''Alice'', contact ''Alice'' None [])])
   \<and> find_contact [(''Alice'', contact ''Alice'' None [])] ''Carol'' = None"
proof -
  have h: "''Bob'' \<notin> fst ` set [(''Alice'', contact ''Alice'' None [])]" by simp
  from update_name_not_found [OF h, of plain_collab "Date 2024 1 1" "''Carol''"] h
  show ?thesis by (simp add: find_contact_def)
qed

text \<open>C4, at the input where the code departs from it. The claim: no lookup raises. On
  1 March 2024 a record born on 29 February 2000 is projected onto 29 February 2024,
  which is before today, and \<^verbatim>\<open>replace(year=2025)\<close> on line 94 raises \<^verbatim>\<open>ValueError\<close>:
  \<^verbatim>\<open>get_upcoming_birthdays\<close> fails.\<close>

theorem get_upcoming_birthdays_raises:
  "exec C (Date 2024 3 1) [(''Bob'', contact ''Bob'' (Some (Date 2000 2 29)) [])]
     (GetUpcomingBirthdays 0)
   = (Inl (ValueError ''day is out of range for month''),
      [(''Bob'', contact ''Bob'' (Some (Date 2000 2 29)) [])])"
  by (simp add: get_upcoming_birthdays_def delta_days_def replace_year_def days_in_month_def
        is_leap_def date_less_def)

text \<open>C5. \<^verbatim>\<open>add_record\<close> raises \<^verbatim>\<open>ValueError("Invalid record.")\<close> (the spec's InvalidRecord)
  for a value that is no \<^verbatim>\<open>Record\<close>, for a record without a name and for a record with
  the empty name, and the mapping is then as it was. Otherwise it returns, the record is
  stored under its name, every other key holds what it held, and the keys are the old
  keys, with the name appended when it is new.\<close>

theorem add_record_validates:
  "add_record book NotARecord = (Inl (ValueError ''Invalid record.''), book)
   \<and> add_record book UnnamedRecord = (Inl (ValueError ''Invalid record.''), book)
   \<and> (name r = [] \<longrightarrow>
        add_record book (NamedRecord r) = (Inl (ValueError ''Invalid record.''), book))
   \<and> (name r \<noteq> [] \<longrightarrow>
        (\<exists>book'. add_record book (NamedRecord r) = (Inr (), book')
          \<and> find_contact book' (name r) = Some r
          \<and> (\<forall>k. k \<noteq> name r \<longrightarrow> find_contact book' k = find_contact book k)
          \<and> map fst book' =
              (if name r \<in> fst ` set book then map fst book else map fst book @ [name r])))"
  by (simp add: find_contact_def update_conv' update_keys)

theorem add_record_validates_witness:
  "add_record [(''Ann'', contact ''Ann'' None [])] (NamedRecord (contact '''' None []))
     = (Inl (ValueError ''Invalid record.''), [(''Ann'', contact ''Ann'' None [])])
   \<and> add_record [(''Ann'', contact ''Ann'' None [])]
        (NamedRecord (contact ''Ann'' (Some (Date 1990 3 1)) []))
     = (Inr (), [(''Ann'', contact ''Ann'' (Some (Date 1990 3 1)) [])])
   \<and> find_contact [(''Ann'', contact ''Ann'' (Some (Date 1990 3 1)) [])] ''Ann''
     = Some (contact ''Ann'' (Some (Date 1990 3 1)) [])"
  using add_record_validates [of "[(''Ann'', contact ''Ann'' None [])]" "contact '''' None []"]
    add_record_validates [of "[(''Ann'', contact ''Ann'' None [])]"
      "contact ''Ann'' (Some (Date 1990 3 1)) []"]
  by (simp add: find_contact_def)

text \<open>C6. \<^verbatim>\<open>delete\<close> of a present name returns and leaves the other entries, in their
  order; the name is then not found, in particular after the name has just been added.
  \<^verbatim>\<open>delete\<close> of an absent name raises
  \<^verbatim>\<open>ValueError("Record not found or invalid name.")\<close> (the spec's NotFound) and the mapping
  is as it was.\<close>

theorem delete_present_or_not_found:
  "(nm \<in> fst ` set book \<longrightarrow>
      (\<exists>book'. delete book nm = (Inr ''Contact deleted.'', book')
         \<and> book' = filter (\<lambda>entry. fst entry \<noteq> nm) book
         \<and> find_contact book' nm = None
         \<and> (\<forall>k. k \<noteq> nm \<longrightarrow> find_contact book' k = find_contact book k)))
   \<and> (nm \<notin> fst ` set book \<longrightarrow>
        delete book nm = (Inl (ValueError ''Record not found or invalid name.''), book))
   \<and> (name r \<noteq> [] \<longrightarrow>
        fst (delete (snd (add_record book (NamedRecord r))) (name r)) = Inr ''Contact deleted.''
        \<and> find_contact (snd (delete (snd (add_record book (NamedRecord r))) (name r))) (name r)
            = None)"
proof (intro conjI impI)
  assume "nm \<in> fst ` set book"
  then show "\<exists>book'. delete book nm = (Inr ''Contact deleted.'', book')
         \<and> book' = filter (\<lambda>entry. fst entry \<noteq> nm) book
         \<and> find_contact book' nm = None
         \<and> (\<forall>k. k \<noteq> nm \<longrightarrow> find_contact book' k = find_contact book k)"
    by (simp add: delete_def find_contact_def delete_conv' delete_filter [symmetric])
next
  assume "nm \<notin> fst ` set book"
  then show "delete book nm = (Inl (ValueError ''Record not found or invalid name.''), book)"
    by (simp add: delete_def)
next
  assume "name r \<noteq> []"
  then show "fst (delete (snd (add_record book (NamedRecord r))) (name r))
      = Inr ''Contact deleted.''"
    by (simp add: delete_def dom_update)
next
  assume "name r \<noteq> []"
  then show "find_contact (snd (delete (snd (add_record book (NamedRecord r))) (name r)))
      (name r) = None"
    by (simp add: delete_def dom_update find_contact_def delete_conv')
qed

theorem delete_present_or_not_found_witness:
  "''Ann'' \<in> fst ` set [(''Ann'', contact ''Ann'' None []), (''Bob'', contact ''Bob'' None [])]
   \<and> delete [(''Ann'', contact ''Ann'' None []), (''Bob'', contact ''Bob'' None [])] ''Ann''
       = (Inr ''Contact deleted.'', [(''Bob'', contact ''Bob'' None [])])
   \<and> find_contact [(''Bob'', contact ''Bob'' None [])] ''Ann'' = None
   \<and> ''Ann'' \<notin> fst ` set [(''Bob'', contact ''Bob'' None [])]
   \<and> delete [(''Bob'', contact ''Bob'' None [])] ''Ann''
       = (Inl (ValueError ''Record not found or invalid name.''),
          [(''Bob'', contact ''Bob'' None [])])"
  using delete_present_or_not_found
      [of "''Ann''" "[(''Ann'', contact ''Ann'' None []), (''Bob'', contact ''Bob'' None [])]"]
    delete_present_or_not_found [of "''Ann''" "[(''Bob'', contact ''Bob'' None [])]"]
  by (simp add: find_contact_def)



text \<open>C8, as stated, fails. The claim: a second \<^verbatim>\<open>delete_note_by_title\<close> with the same title
  changes nothing. The call removes the first note with the title and returns; when two
  notes carry the title, the second call removes the other one.\<close>

theorem delete_note_twice_counterexample:
  "delete_note_by_title
     (delete_note_by_title
        [(''Ann'', contact ''Ann'' None
            [\<lparr>title = ''todo'', content = ''milk'', tags = []\<rparr>,
             \<lparr>title = ''todo'', content = ''bread'', tags = []\<rparr>])] ''todo'') ''todo''
   \<noteq> delete_note_by_title
        [(''Ann'', contact ''Ann'' None
            [\<lparr>title = ''todo'', content = ''milk'', tags = []\<rparr>,
             \<lparr>title = ''todo'', content = ''bread'', tags = []\<rparr>])] ''todo''"
  by simp

text \<open>C8, amended. When at most one note of the address book carries the title, calling
  \<^verbatim>\<open>delete_note_by_title\<close> twice leaves the state of the first call; and a call with no
  matching note returns without failure and changes nothing.\<close>

theorem delete_note_by_title_idempotent:
  "(length (filter (\<lambda>n. title n = t) (concat (map (\<lambda>(k, r). record_notes r) book))) \<le> 1
      \<longrightarrow> delete_note_by_title (delete_note_by_title book t) t = delete_note_by_title book t)
   \<and> (find_note_by_title book t = None
      \<longrightarrow> exec C today book (DeleteNoteByTitle t) = (Inr NoneVal, book))
   \<and> fst (exec C today book (DeleteNoteByTitle t)) = Inr NoneVal"
  by (simp add: delete_note_twice delete_note_no_match find_note_None)

theorem delete_note_by_title_idempotent_witness:
  "length (filter (\<lambda>n. title n = ''todo'')
      (concat (map (\<lambda>(k, r). record_notes r)
         [(''Ann'', contact ''Ann'' None
            [\<lparr>title = ''todo'', content = ''milk'', tags = []\<rparr>,
             \<lparr>title = ''list'', content = ''bread'', tags = []\<rparr>])]))) \<le> 1
   \<and> delete_note_by_title
        [(''Ann'', contact ''Ann'' None
            [\<lparr>title = ''todo'', content = ''milk'', tags = []\<rparr>,
             \<lparr>title = ''list'', content = ''bread'', tags = []\<rparr>])] ''todo''
      = [(''Ann'', contact ''Ann'' None [\<lparr>title = ''list'', content = ''bread'', tags = []\<rparr>])]
   \<and> delete_note_by_title
        [(''Ann'', contact ''Ann'' None [\<lparr>title = ''list'', content = ''bread'', tags = []\<rparr>])]
        ''todo''
      = [(''Ann'', contact ''Ann'' None [\<lparr>title = ''list'', content = ''bread'', tags = []\<rparr>])]
   \<and> find_note_by_title
        [(''Ann'', contact ''Ann'' None [\<lparr>title = ''list'', content = ''bread'', tags = []\<rparr>])]
        ''todo'' = None"
  using delete_note_by_title_idempotent
     [of "''todo''" "[(''Ann'', contact ''Ann'' None
            [\<lparr>title = ''todo'', content = ''milk'', tags = []\<rparr>,
             \<lparr>title = ''list'', content = ''bread'', tags = []\<rparr>])]" plain_collab "Date 2024 1 1"]
  by simp

text \<open>C9. \<^verbatim>\<open>sort_records\<close> leaves the keys in strictly ascending lexicographic order, each
  key the name of its record, and sorting again changes nothing. On an address book whose
  keys are the names of its records it only reorders: the entries are the same, and an
  address book already in ascending order is returned as it is.\<close>

theorem sort_records_sorted_idempotent:
  "sorted_wrt (<) (map fst (sort_records book))
   \<and> keys_match (sort_records book)
   \<and> sort_records (sort_records book) = sort_records book
   \<and> (keys_match book \<and> distinct (map fst book) \<longrightarrow> mset (sort_records book) = mset book)
   \<and> (keys_match book \<and> sorted_wrt (<) (map fst book) \<longrightarrow> sort_records book = book)"
  by (simp add: sort_records_keys_sorted keys_match_sort_records sort_records_idem
        sort_records_mset sort_records_id)

theorem sort_records_sorted_idempotent_witness:
  "keys_match [(''Bob'', contact ''Bob'' None []), (''Ann'', contact ''Ann'' None [])]
   \<and> distinct (map fst [(''Bob'', contact ''Bob'' None []), (''Ann'', contact ''Ann'' None [])])
   \<and> sort_records [(''Bob'', contact ''Bob'' None []), (''Ann'', contact ''Ann'' None [])]
       = [(''Ann'', contact ''Ann'' None []), (''Bob'', contact ''Bob'' None [])]
   \<and> sorted_wrt (<) (map fst [(''Ann'', contact ''Ann'' None []), (''Bob'', contact ''Bob'' None [])])
   \<and> sort_records [(''Ann'', contact ''Ann'' None []), (''Bob'', contact ''Bob'' None [])]
       = [(''Ann'', contact ''Ann'' None []), (''Bob'', contact ''Bob'' None [])]"
proof -
  let ?b = "[(''Bob'', contact ''Bob'' None []), (''Ann'', contact ''Ann'' None [])]"
  let ?a = "[(''Ann'', contact ''Ann'' None []), (''Bob'', contact ''Bob'' None [])]"
  have k: "keys_match ?b" "keys_match ?a" by (simp_all add: keys_match_def)
  have d: "distinct (map fst ?b)" by simp
  have s: "sort_records ?b = ?a" by code_simp
  have o: "sorted_wrt (<) (map fst ?a)"
    using sort_records_sorted_idempotent [of ?b] by (simp only: s)
  from sort_records_sorted_idempotent [of ?a] k(2) o have "sort_records ?a = ?a" by blast
  with k d s o show ?thesis by simp
qed

text \<open>C10. \<^verbatim>\<open>get_owner\<close>, \<^verbatim>\<open>find_phone\<close>, \<^verbatim>\<open>find_contact\<close> and \<^verbatim>\<open>find_notes_by_tag\<close>
  return and leave \<^verbatim>\<open>self.data\<close> as it was: the same keys, records and order.\<close>

theorem reads_leave_entries:
  "snd (exec C today book GetOwner) = book
   \<and> snd (exec C today book (FindPhone phone)) = book
   \<and> snd (exec C today book (FindContact nm)) = book
   \<and> snd (exec C today book (FindNotesByTag tag)) = book"
  by simp

end
